theory Spec2Isabelle
  imports Main
begin

section \<open>Data model\<close>

text \<open>
  The commands under \<^verbatim>\<open>subscriptions/management/commands\<close> work on three Django models:
  a License belongs to a SubscriptionPlan, which belongs to a CustomerAgreement.  Both
  foreign keys are mandatory, so a license row is modelled together with the plan and the
  agreement it points to (what \<^verbatim>\<open>select_related\<close> loads).  A table is the list of its rows;
  the primary key of a license is its \<open>uuid\<close>.

  Modelled from the spec: the models CustomerAgreement, SubscriptionPlan and License of
  \<^verbatim>\<open>models.py\<close> and the status constants of \<^verbatim>\<open>constants.py\<close>, with the fields that the
  commands read and write.
\<close>

type_synonym UUID = nat

text \<open>
  A datetime is the number of microseconds since 0001-01-01T00:00:00 UTC.  Python's
  \<^verbatim>\<open>datetime\<close> type holds the values from \<^verbatim>\<open>datetime.min\<close> (0) up to
  \<^verbatim>\<open>datetime.max\<close> (9999-12-31T23:59:59.999999), that is \<open>3652059\<close> days.
\<close>

type_synonym datetime = int

text \<open>A Python \<^verbatim>\<open>str\<close> is a sequence of Unicode code points.\<close>

type_synonym pystr = "nat list"

datatype license_status = UNASSIGNED | ASSIGNED | ACTIVATED | REVOKED

record customer_agreement =
  enterprise_customer_uuid :: UUID

record subscription_plan =
  customer_agreement :: customer_agreement
  title :: pystr
  expiration_date :: datetime

record license =
  uuid :: UUID
  status :: license_status
  user_email :: "pystr option"
  lms_user_id :: "int option"
  assigned_date :: "datetime option"
  activation_date :: "datetime option"
  revoked_date :: "datetime option"
  expiration_reminder_sent_date :: "datetime option"
  subscription_plan_expiration_email_sent_date :: "datetime option"
  subscription_plan :: subscription_plan

text \<open>The exception classes the commands distinguish; \<open>Exception\<close> is any other class.\<close>

datatype exn = ValueError | OverflowError | BrazeClientError | Exception

section \<open>Dates\<close>

definition DAY_US :: int where
  "DAY_US = 86400000000"

definition MAX_DATETIME_US :: int where
  "MAX_DATETIME_US = 3652059 * 86400000000"

text \<open>
  \<^verbatim>\<open>timedelta(days=d)\<close>: Python raises OverflowError when the magnitude of the number of
  days exceeds 999999999.  The result is the duration in microseconds.
\<close>

definition timedelta_days :: "int \<Rightarrow> exn + int" where
  "timedelta_days d = (if \<bar>d\<bar> > 999999999 then Inl OverflowError else Inr (d * DAY_US))"

text \<open>\<^verbatim>\<open>dt + delta\<close>: OverflowError when the result leaves the range of \<^verbatim>\<open>datetime\<close>.\<close>

definition datetime_add :: "datetime \<Rightarrow> int \<Rightarrow> exn + datetime" where
  "datetime_add t delta =
     (if 0 \<le> t + delta \<and> t + delta < MAX_DATETIME_US then Inr (t + delta)
      else Inl OverflowError)"

text \<open>\<^verbatim>\<open>dt.replace(hour=0, minute=0, second=0, microsecond=0)\<close>\<close>

definition replace_midnight :: "datetime \<Rightarrow> datetime" where
  "replace_midnight t = t - t mod DAY_US"

text \<open>\<^verbatim>\<open>dt.date()\<close>, as the number of days since 0001-01-01.\<close>

definition date_of :: "datetime \<Rightarrow> int" where
  "date_of t = t div DAY_US"

section \<open>Selecting the licenses to notify\<close>

text \<open>
  \<^verbatim>\<open>_get_expiring_licenses\<close> of \<^verbatim>\<open>send_license_expiration_reminders.py\<close>.  \<open>now\<close> is the
  value of \<^verbatim>\<open>localized_utcnow()\<close>, \<open>licenses\<close> is the License table.
\<close>

definition expiring_filter :: "UUID \<Rightarrow> datetime \<Rightarrow> datetime \<Rightarrow> license \<Rightarrow> bool" where
  "expiring_filter eu window_start window_end l \<longleftrightarrow>
     status l = ACTIVATED \<and>
     enterprise_customer_uuid (customer_agreement (subscription_plan l)) = eu \<and>
     expiration_date (subscription_plan l) \<ge> window_start \<and>
     expiration_date (subscription_plan l) < window_end \<and>
     expiration_reminder_sent_date l = None"

definition get_expiring_licenses ::
  "license list \<Rightarrow> datetime \<Rightarrow> UUID \<Rightarrow> int \<Rightarrow> exn + license list" where
  "get_expiring_licenses licenses now eu days_before_expiration =
     (case timedelta_days days_before_expiration of
        Inl e \<Rightarrow> Inl e
      | Inr delta \<Rightarrow>
     (case datetime_add now delta of
        Inl e \<Rightarrow> Inl e
      | Inr target_expiration_date \<Rightarrow>
     (let expiration_window_start = replace_midnight target_expiration_date in
      case datetime_add expiration_window_start DAY_US of
        Inl e \<Rightarrow> Inl e
      | Inr expiration_window_end \<Rightarrow>
          Inr (filter (expiring_filter eu expiration_window_start expiration_window_end)
                 licenses))))"

text \<open>
  \<^verbatim>\<open>_get_recently_expired_plan_licenses\<close> of
  \<^verbatim>\<open>send_subscription_plan_expiration_emails.py\<close>.  Subtracting a timedelta adds its
  negation.
\<close>

definition recently_expired_filter :: "UUID \<Rightarrow> datetime \<Rightarrow> datetime \<Rightarrow> license \<Rightarrow> bool" where
  "recently_expired_filter eu window_start window_end l \<longleftrightarrow>
     status l = ACTIVATED \<and>
     enterprise_customer_uuid (customer_agreement (subscription_plan l)) = eu \<and>
     expiration_date (subscription_plan l) \<ge> window_start \<and>
     expiration_date (subscription_plan l) < window_end \<and>
     subscription_plan_expiration_email_sent_date l = None"

definition get_recently_expired_plan_licenses ::
  "license list \<Rightarrow> datetime \<Rightarrow> UUID \<Rightarrow> int \<Rightarrow> exn + license list" where
  "get_recently_expired_plan_licenses licenses now eu days_since_expiration =
     (let expiration_window_end = replace_midnight now in
      case timedelta_days days_since_expiration of
        Inl e \<Rightarrow> Inl e
      | Inr delta \<Rightarrow>
     (case datetime_add expiration_window_end (- delta) of
        Inl e \<Rightarrow> Inl e
      | Inr expiration_window_start \<Rightarrow>
          Inr (filter (recently_expired_filter eu expiration_window_start expiration_window_end)
                 licenses)))"

section \<open>Parsing the enterprise customer UUIDs\<close>

text \<open>
  The code points for which Python's \<^verbatim>\<open>str.isspace\<close> holds.  \<^verbatim>\<open>str.strip()\<close> and the
  class \<^verbatim>\<open>\s\<close> of a \<^verbatim>\<open>str\<close> pattern both use it.
\<close>

definition isspace :: "nat \<Rightarrow> bool" where
  "isspace c \<longleftrightarrow>
     (9 \<le> c \<and> c \<le> 13) \<or> (28 \<le> c \<and> c \<le> 32) \<or> c = 133 \<or> c = 160 \<or> c = 5760 \<or>
     (8192 \<le> c \<and> c \<le> 8202) \<or> c = 8232 \<or> c = 8233 \<or> c = 8239 \<or> c = 8287 \<or> c = 12288"

definition strip :: "pystr \<Rightarrow> pystr" where
  "strip s = rev (dropWhile isspace (rev (dropWhile isspace s)))"

text \<open>The character class \<^verbatim>\<open>[,\s]\<close>; 44 is the comma.\<close>

definition is_separator :: "nat \<Rightarrow> bool" where
  "is_separator c \<longleftrightarrow> c = 44 \<or> isspace c"

text \<open>
  \<^verbatim>\<open>re.split(r'[,\s]+', s)\<close>: the pieces of \<open>s\<close> between the maximal runs of separators, the
  empty pieces before a leading run and after a trailing run included.  \<open>cur\<close> is the piece
  being read, reversed; \<open>in_run\<close> says that the previous character was a separator.
\<close>

fun re_split_from :: "pystr \<Rightarrow> bool \<Rightarrow> pystr \<Rightarrow> pystr list" where
  "re_split_from cur in_run [] = [rev cur]"
| "re_split_from cur in_run (c # cs) =
     (if is_separator c then
        (if in_run then re_split_from [] True cs
         else rev cur # re_split_from [] True cs)
      else re_split_from (c # cur) False cs)"

definition re_split :: "pystr \<Rightarrow> pystr list" where
  "re_split s = re_split_from [] False s"

text \<open>
  The loop that calls \<^verbatim>\<open>uuid.UUID(item)\<close> on every item and re-raises the first ValueError.
  \<open>mkUUID\<close> is the constructor \<^verbatim>\<open>uuid.UUID\<close> of the Python library: \<open>None\<close> when it raises
  ValueError.
\<close>

fun validate_uuids :: "(pystr \<Rightarrow> UUID option) \<Rightarrow> pystr list \<Rightarrow> exn option" where
  "validate_uuids mkUUID [] = None"
| "validate_uuids mkUUID (item # items) =
     (case mkUUID item of
        None \<Rightarrow> Some ValueError
      | Some _ \<Rightarrow> validate_uuids mkUUID items)"

definition parse_enterprise_customer_uuids ::
  "(pystr \<Rightarrow> UUID option) \<Rightarrow> pystr \<Rightarrow> exn + pystr list" where
  "parse_enterprise_customer_uuids mkUUID uuids_string =
     (let uuids = re_split (strip uuids_string);
          uuids = map strip (filter (\<lambda>u. strip u \<noteq> []) uuids)
      in case validate_uuids mkUUID uuids of
           Some e \<Rightarrow> Inl e
         | None \<Rightarrow> Inr uuids)"

section \<open>The two email commands\<close>

text \<open>
  \<^verbatim>\<open>send_license_expiration_reminders\<close> and \<^verbatim>\<open>send_subscription_plan_expiration_emails\<close>
  have the same \<^verbatim>\<open>_process_enterprise_customer\<close> up to the selection of the licenses, the
  campaign setting and the timestamp field that is written; \<open>command\<close> says which of the
  two is running.
\<close>

datatype command = Reminder | PlanExpiration

text \<open>
  What a run can change or leave behind: the License table, the campaign messages that
  Braze accepted (campaign, license and time of the call), the licenses for which the send
  loop logged a failure, the customers for which processing started, the calls of
  \<^verbatim>\<open>get_enterprise_customer_data\<close>, and the number of Braze calls made so far.
\<close>

record world =
  licenses :: "license list"
  sent :: "(command \<times> UUID \<times> datetime) list"
  send_failures :: "(command \<times> UUID) list"
  processing :: "UUID list"
  api_calls :: "UUID list"
  braze_calls :: nat

text \<open>
  What a run reads from outside: the clock, the two campaign settings, and the outcome of
  every call of the enterprise API and of Braze (\<open>None\<close>: the call returns; \<open>Some e\<close>: it
  raises \<open>e\<close>), which may depend on how many calls were made before.  Every call of
  \<^verbatim>\<open>localized_utcnow()\<close> during one run reads the same time \<open>now\<close>; runs differ in their
  clocks.  Queries and saves are taken to succeed.
\<close>

record env =
  now :: datetime
  reminder_campaign :: "pystr option"
  plan_expiration_campaign :: "pystr option"
  enterprise_api :: "nat \<Rightarrow> UUID \<Rightarrow> exn option"
  braze :: "nat \<Rightarrow> license \<Rightarrow> exn option"

definition select_licenses ::
  "command \<Rightarrow> license list \<Rightarrow> datetime \<Rightarrow> UUID \<Rightarrow> int \<Rightarrow> exn + license list" where
  "select_licenses c rows t eu days =
     (case c of
        Reminder \<Rightarrow> get_expiring_licenses rows t eu days
      | PlanExpiration \<Rightarrow> get_recently_expired_plan_licenses rows t eu days)"

definition campaign_setting :: "command \<Rightarrow> env \<Rightarrow> pystr option" where
  "campaign_setting c e =
     (case c of Reminder \<Rightarrow> reminder_campaign e | PlanExpiration \<Rightarrow> plan_expiration_campaign e)"

text \<open>
  \<^verbatim>\<open>_send_expiration_reminder_email\<close> and \<^verbatim>\<open>_send_subscription_expiration_email\<close>: ValueError
  when the campaign setting is missing or empty, otherwise the outcome of the Braze call.
  The content of the message is not modelled.
\<close>

definition send_campaign_email ::
  "command \<Rightarrow> env \<Rightarrow> world \<Rightarrow> license \<Rightarrow> world \<times> exn option" where
  "send_campaign_email c e w license_obj =
     (case campaign_setting c e of
        None \<Rightarrow> (w, Some ValueError)
      | Some braze_campaign_id \<Rightarrow>
          if braze_campaign_id = [] then (w, Some ValueError)
          else
            (let w1 = w\<lparr>braze_calls := braze_calls w + 1\<rparr> in
             case braze e (braze_calls w) license_obj of
               Some x \<Rightarrow> (w1, Some x)
             | None \<Rightarrow> (w1\<lparr>sent := sent w1 @ [(c, uuid license_obj, now e)]\<rparr>, None)))"

definition sent_date :: "command \<Rightarrow> license \<Rightarrow> datetime option" where
  "sent_date c l =
     (case c of
        Reminder \<Rightarrow> expiration_reminder_sent_date l
      | PlanExpiration \<Rightarrow> subscription_plan_expiration_email_sent_date l)"

definition set_sent_date :: "command \<Rightarrow> datetime \<Rightarrow> license \<Rightarrow> license" where
  "set_sent_date c t l =
     (case c of
        Reminder \<Rightarrow> l\<lparr>expiration_reminder_sent_date := Some t\<rparr>
      | PlanExpiration \<Rightarrow> l\<lparr>subscription_plan_expiration_email_sent_date := Some t\<rparr>)"

text \<open>
  \<^verbatim>\<open>license_obj.save(update_fields=[...])\<close>: an UPDATE of the one column in the row with
  the primary key of the object.
\<close>

definition save_sent_date :: "command \<Rightarrow> datetime \<Rightarrow> UUID \<Rightarrow> license list \<Rightarrow> license list" where
  "save_sent_date c t pk rows = map (\<lambda>r. if uuid r = pk then set_sent_date c t r else r) rows"

text \<open>The loop over the selected licenses, with its two counters.\<close>

fun send_loop ::
  "command \<Rightarrow> env \<Rightarrow> world \<Rightarrow> license list \<Rightarrow> nat \<Rightarrow> nat \<Rightarrow> world \<times> (exn + nat \<times> nat)" where
  "send_loop c e w [] success_count failure_count = (w, Inr (success_count, failure_count))"
| "send_loop c e w (license_obj # rest) success_count failure_count =
     (case send_campaign_email c e w license_obj of
        (w1, None) \<Rightarrow>
          send_loop c e
            (w1\<lparr>licenses := save_sent_date c (now e) (uuid license_obj) (licenses w1)\<rparr>)
            rest (success_count + 1) failure_count
      | (w1, Some x) \<Rightarrow>
          if x = ValueError then (w1, Inl ValueError)
          else
            send_loop c e
              (w1\<lparr>send_failures := send_failures w1 @ [(c, uuid license_obj)]\<rparr>)
              rest success_count (failure_count + 1))"

definition process_enterprise_customer ::
  "command \<Rightarrow> env \<Rightarrow> world \<Rightarrow> UUID \<Rightarrow> int \<Rightarrow> bool \<Rightarrow> world \<times> (exn + nat \<times> nat)" where
  "process_enterprise_customer c e w eu days dry_run =
     (let w0 = w\<lparr>processing := processing w @ [eu]\<rparr> in
      case select_licenses c (licenses w0) (now e) eu days of
        Inl x \<Rightarrow> (w0, Inl x)
      | Inr selected \<Rightarrow>
          if selected = [] then (w0, Inr (0, 0))
          else if dry_run then (w0, Inr (0, 0))
          else
            (let w1 = w0\<lparr>api_calls := api_calls w0 @ [eu]\<rparr> in
             case enterprise_api e (length (api_calls w0)) eu of
               Some x \<Rightarrow> (w1, Inl x)
             | None \<Rightarrow> send_loop c e w1 selected 0 0))"

text \<open>
  The loop of \<^verbatim>\<open>handle\<close> in \<^verbatim>\<open>send_license_expiration_reminders.py\<close>.  The items are the
  strings that the parser returned; the ORM turns each into a UUID when it builds the
  query.  A string that is no UUID cannot reach the loop; the ORM would reject it with an
  exception that is not a ValueError.
\<close>

fun reminder_loop ::
  "(pystr \<Rightarrow> UUID option) \<Rightarrow> env \<Rightarrow> world \<Rightarrow> pystr list \<Rightarrow> int \<Rightarrow> bool \<Rightarrow> nat \<Rightarrow> nat \<Rightarrow>
     world \<times> (exn + nat \<times> nat)" where
  "reminder_loop mkUUID e w [] days dry_run total_success_count total_failure_count =
     (w, Inr (total_success_count, total_failure_count))"
| "reminder_loop mkUUID e w (item # items) days dry_run total_success_count total_failure_count =
     (case mkUUID item of
        None \<Rightarrow>
          reminder_loop mkUUID e w items days dry_run
            total_success_count (total_failure_count + 1)
      | Some eu \<Rightarrow>
     (case process_enterprise_customer Reminder e w eu days dry_run of
        (w1, Inr (success_count, failure_count)) \<Rightarrow>
          reminder_loop mkUUID e w1 items days dry_run
            (total_success_count + success_count) (total_failure_count + failure_count)
      | (w1, Inl x) \<Rightarrow>
          if x = ValueError then (w1, Inl ValueError)
          else
            reminder_loop mkUUID e w1 items days dry_run
              total_success_count (total_failure_count + 1)))"

definition handle_reminders ::
  "(pystr \<Rightarrow> UUID option) \<Rightarrow> env \<Rightarrow> world \<Rightarrow> pystr \<Rightarrow> int \<Rightarrow> bool \<Rightarrow> world \<times> (exn + unit)" where
  "handle_reminders mkUUID e w uuids_string days_before_expiration dry_run =
     (case parse_enterprise_customer_uuids mkUUID uuids_string of
        Inl x \<Rightarrow> (w, Inl x)
      | Inr enterprise_customer_uuids \<Rightarrow>
          if enterprise_customer_uuids = [] then (w, Inl ValueError)
          else
            (case reminder_loop mkUUID e w enterprise_customer_uuids
                    days_before_expiration dry_run 0 0 of
               (w1, Inl x) \<Rightarrow> (w1, Inl x)
             | (w1, Inr (total_success_count, total_failure_count)) \<Rightarrow>
                 if total_failure_count > 0 then (w1, Inl Exception)
                 else (w1, Inr ())))"

text \<open>
  The loop of \<^verbatim>\<open>handle\<close> in \<^verbatim>\<open>send_subscription_plan_expiration_emails.py\<close>, which counts
  the customers that could not be processed apart, in \<open>enterprise_level_failures\<close>.
\<close>

fun plan_expiration_loop ::
  "(pystr \<Rightarrow> UUID option) \<Rightarrow> env \<Rightarrow> world \<Rightarrow> pystr list \<Rightarrow> int \<Rightarrow> bool \<Rightarrow> nat \<Rightarrow> nat \<Rightarrow> nat \<Rightarrow>
     world \<times> (exn + nat \<times> nat \<times> nat)" where
  "plan_expiration_loop mkUUID e w [] days dry_run
       total_success_count total_failure_count enterprise_level_failures =
     (w, Inr (total_success_count, total_failure_count, enterprise_level_failures))"
| "plan_expiration_loop mkUUID e w (item # items) days dry_run
       total_success_count total_failure_count enterprise_level_failures =
     (case mkUUID item of
        None \<Rightarrow>
          plan_expiration_loop mkUUID e w items days dry_run
            total_success_count total_failure_count (enterprise_level_failures + 1)
      | Some eu \<Rightarrow>
     (case process_enterprise_customer PlanExpiration e w eu days dry_run of
        (w1, Inr (success_count, failure_count)) \<Rightarrow>
          plan_expiration_loop mkUUID e w1 items days dry_run
            (total_success_count + success_count) (total_failure_count + failure_count)
            enterprise_level_failures
      | (w1, Inl x) \<Rightarrow>
          if x = ValueError then (w1, Inl ValueError)
          else
            plan_expiration_loop mkUUID e w1 items days dry_run
              total_success_count total_failure_count (enterprise_level_failures + 1)))"

definition handle_plan_expiration ::
  "(pystr \<Rightarrow> UUID option) \<Rightarrow> env \<Rightarrow> world \<Rightarrow> pystr \<Rightarrow> int \<Rightarrow> bool \<Rightarrow> world \<times> (exn + unit)" where
  "handle_plan_expiration mkUUID e w uuids_string days_since_expiration dry_run =
     (case parse_enterprise_customer_uuids mkUUID uuids_string of
        Inl x \<Rightarrow> (w, Inl x)
      | Inr enterprise_customer_uuids \<Rightarrow>
          if enterprise_customer_uuids = [] then (w, Inl ValueError)
          else
            (case plan_expiration_loop mkUUID e w enterprise_customer_uuids
                    days_since_expiration dry_run 0 0 0 of
               (w1, Inl x) \<Rightarrow> (w1, Inl x)
             | (w1, Inr (total_success_count, total_failure_count, enterprise_level_failures)) \<Rightarrow>
                 if total_failure_count + enterprise_level_failures > 0 then (w1, Inl Exception)
                 else (w1, Inr ())))"

section \<open>Retiring old licenses\<close>

text \<open>
  \<^verbatim>\<open>retire_old_licenses.py\<close>.  The constant and the three methods of License that the
  command calls are defined in \<^verbatim>\<open>constants.py\<close> and \<^verbatim>\<open>models.py\<close>.
\<close>

text \<open>Modelled from the spec: the constant \<^verbatim>\<open>DAYS_TO_RETIRE\<close> of constants.py, 90 days.\<close>

definition DAYS_TO_RETIRE :: int where
  "DAYS_TO_RETIRE = 90"

text \<open>
  Modelled from the spec: \<^verbatim>\<open>License.clear_pii\<close> of models.py, which clears the
  personally-identifiable information of the license: the email address and the LMS user id.
\<close>

definition clear_pii :: "license \<Rightarrow> license" where
  "clear_pii l = l\<lparr>user_email := None, lms_user_id := None\<rparr>"

text \<open>
  Modelled from the spec: \<^verbatim>\<open>License.reset_to_unassigned\<close> of models.py, which scrubs the
  assignment data and the PII of the license and sets its status to unassigned.
\<close>

definition reset_to_unassigned :: "license \<Rightarrow> license" where
  "reset_to_unassigned l =
     l\<lparr>status := UNASSIGNED, user_email := None, lms_user_id := None,
       assigned_date := None, activation_date := None, revoked_date := None\<rparr>"

text \<open>
  \<^verbatim>\<open>obj.save()\<close>: an UPDATE of every column in the row with the primary key of the object.
  The history table that \<^verbatim>\<open>clear_historical_pii\<close> writes is not part of the model.
\<close>

definition save :: "license \<Rightarrow> license list \<Rightarrow> license list" where
  "save obj rows = map (\<lambda>r. if uuid r = uuid obj then obj else r) rows"

text \<open>The three loops: each fetched object is changed by \<open>f\<close> and saved.\<close>

fun retire_each :: "(license \<Rightarrow> license) \<Rightarrow> license list \<Rightarrow> license list \<Rightarrow> license list" where
  "retire_each f [] rows = rows"
| "retire_each f (obj # objs) rows = retire_each f objs (save (f obj) rows)"

text \<open>
  A DateTimeField compared with a date is compared with the midnight that starts the date;
  the lookup \<^verbatim>\<open>__date\<close> compares the date of the field.
\<close>

definition expired_for_retirement :: "int \<Rightarrow> license \<Rightarrow> bool" where
  "expired_for_retirement ready_for_retirement_date l \<longleftrightarrow>
     user_email l \<noteq> None \<and>
     expiration_date (subscription_plan l) < ready_for_retirement_date * DAY_US"

definition revoked_for_retirement :: "int \<Rightarrow> license \<Rightarrow> bool" where
  "revoked_for_retirement ready_for_retirement_date l \<longleftrightarrow>
     status l = REVOKED \<and>
     user_email l \<noteq> None \<and>
     (case revoked_date l of
        None \<Rightarrow> False
      | Some d \<Rightarrow> date_of d < ready_for_retirement_date)"

definition assigned_for_retirement :: "int \<Rightarrow> license \<Rightarrow> bool" where
  "assigned_for_retirement ready_for_retirement_date l \<longleftrightarrow>
     status l = ASSIGNED \<and>
     (case assigned_date l of
        None \<Rightarrow> False
      | Some d \<Rightarrow> date_of d < ready_for_retirement_date)"

text \<open>
  \<^verbatim>\<open>handle\<close>: \<open>t\<close> is the clock, read by \<^verbatim>\<open>datetime.today()\<close> and \<^verbatim>\<open>datetime.now()\<close>.
  Subtracting the 90 days raises OverflowError when the result is before \<^verbatim>\<open>date.min\<close>.
  Each query runs when its loop starts, on the table as the loops before left it.
\<close>

definition retire_old_licenses :: "license list \<Rightarrow> datetime \<Rightarrow> exn + license list" where
  "retire_old_licenses rows t =
     (let ready_for_retirement_date = date_of t - DAYS_TO_RETIRE in
      if ready_for_retirement_date < 0 then Inl OverflowError
      else
        (let expired_licenses_for_retirement =
               filter (expired_for_retirement ready_for_retirement_date) rows;
             rows1 = retire_each
                       (\<lambda>l. (clear_pii l)\<lparr>status := REVOKED, revoked_date := Some t\<rparr>)
                       expired_licenses_for_retirement rows;
             revoked_licenses_for_retirement =
               filter (revoked_for_retirement ready_for_retirement_date) rows1;
             rows2 = retire_each clear_pii revoked_licenses_for_retirement rows1;
             assigned_licenses_for_retirement =
               filter (assigned_for_retirement ready_for_retirement_date) rows2;
             rows3 = retire_each reset_to_unassigned assigned_licenses_for_retirement rows2
         in Inr rows3))"

text \<open>\<^verbatim>\<open>License.objects.filter(uuid=pk).first()\<close>\<close>

definition get_license :: "license list \<Rightarrow> UUID \<Rightarrow> license option" where
  "get_license rows pk = find (\<lambda>r. uuid r = pk) rows"

section \<open>Runs and their outcomes, as the specification describes them\<close>

text \<open>
  The number of days for which the date window of a command can be computed: a timedelta
  can hold it, and the calendar days that bound the window are dates of the datetime type.
\<close>

definition window_representable :: "command \<Rightarrow> datetime \<Rightarrow> int \<Rightarrow> bool" where
  "window_representable c t days =
     (case c of
        Reminder \<Rightarrow> \<bar>days\<bar> \<le> 999999999 \<and> 0 \<le> date_of t + days \<and> date_of t + days < 3652058
      | PlanExpiration \<Rightarrow> \<bar>days\<bar> \<le> 999999999 \<and> 0 \<le> date_of t - days \<and> date_of t - days < 3652059)"

text \<open>
  The window of the reminder command is the calendar day \<open>days\<close> days after the current
  time; the window of the plan expiration command is the last \<open>days\<close> calendar days before
  today.
\<close>

definition in_window :: "command \<Rightarrow> datetime \<Rightarrow> int \<Rightarrow> datetime \<Rightarrow> bool" where
  "in_window c t days x =
     (case c of
        Reminder \<Rightarrow> (date_of t + days) * DAY_US \<le> x \<and> x < (date_of t + days + 1) * DAY_US
      | PlanExpiration \<Rightarrow> date_of t * DAY_US - days * DAY_US \<le> x \<and> x < date_of t * DAY_US)"

definition eligible :: "command \<Rightarrow> datetime \<Rightarrow> int \<Rightarrow> UUID \<Rightarrow> license \<Rightarrow> bool" where
  "eligible c t days eu l \<longleftrightarrow>
     status l = ACTIVATED \<and>
     enterprise_customer_uuid (customer_agreement (subscription_plan l)) = eu \<and>
     in_window c t days (expiration_date (subscription_plan l)) \<and>
     sent_date c l = None"

text \<open>
  The result of processing each customer of a list in turn, each in the world that the
  customers before it left: the pair of counts, or the exception.
\<close>

fun customer_results ::
  "command \<Rightarrow> (pystr \<Rightarrow> UUID option) \<Rightarrow> env \<Rightarrow> world \<Rightarrow> pystr list \<Rightarrow> int \<Rightarrow> bool \<Rightarrow>
     (exn + nat \<times> nat) list" where
  "customer_results c mkUUID e w [] days dry_run = []"
| "customer_results c mkUUID e w (item # items) days dry_run =
     (case mkUUID item of
        None \<Rightarrow> Inl Exception # customer_results c mkUUID e w items days dry_run
      | Some eu \<Rightarrow>
          snd (process_enterprise_customer c e w eu days dry_run) #
          customer_results c mkUUID e
            (fst (process_enterprise_customer c e w eu days dry_run)) items days dry_run)"

text \<open>What one customer adds to the count of failures and to the count of successes.\<close>

definition failures_of :: "exn + nat \<times> nat \<Rightarrow> nat" where
  "failures_of r = (case r of Inl x \<Rightarrow> 1 | Inr (success_count, failure_count) \<Rightarrow> failure_count)"







section \<open>Tokens, as the specification describes them\<close>

text \<open>
  The non-empty tokens of a string, in order, when the string is split on any run of commas
  and whitespace: skip separators; a token is a maximal run of characters that are not
  separators.
\<close>

function tokens :: "pystr \<Rightarrow> pystr list" where
  "tokens [] = []"
| "tokens (c # cs) =
     (if is_separator c then tokens cs
      else takeWhile (\<lambda>x. \<not> is_separator x) (c # cs) #
           tokens (dropWhile (\<lambda>x. \<not> is_separator x) cs))"
  by pat_completeness auto
termination
  by (relation "measure length") (auto simp: less_Suc_eq_le length_dropWhile_le)

section \<open>Example rows\<close>

text \<open>
  A license of the customer with UUID 7, with the given primary key, status and plan
  expiration date, that has received no email yet.
\<close>

definition example_license :: "UUID \<Rightarrow> license_status \<Rightarrow> datetime \<Rightarrow> license" where
  "example_license pk st expires =
     \<lparr>uuid = pk, status = st, user_email = Some [117, 64, 120], lms_user_id = Some 12345,
      assigned_date = None, activation_date = None, revoked_date = None,
      expiration_reminder_sent_date = None,
      subscription_plan_expiration_email_sent_date = None,
      subscription_plan =
        \<lparr>customer_agreement = \<lparr>enterprise_customer_uuid = 7\<rparr>, title = [],
         expiration_date = expires\<rparr>\<rparr>"

text \<open>
  A world with two licenses and nothing sent yet, and an environment at noon of 2026-11-04
  in which both campaigns are configured and every call of the enterprise API and of Braze
  succeeds.  UUIDs are written as two characters and stand for the customer 7.
\<close>

definition example_world :: world where
  "example_world =
     \<lparr>licenses = [example_license 1 ACTIVATED 63931942800000000,
                  example_license 2 ACTIVATED 63929088000000000],
      sent = [], send_failures = [], processing = [], api_calls = [], braze_calls = 0\<rparr>"

definition example_env :: env where
  "example_env =
     \<lparr>now = 63929390400000000, reminder_campaign = Some [99], plan_expiration_campaign = Some [99],
      enterprise_api = (\<lambda>n eu. None), braze = (\<lambda>n l. None)\<rparr>"



definition example_mkUUID :: "pystr \<Rightarrow> UUID option" where
  "example_mkUUID s = (if length s = 2 then Some 7 else None)"


section \<open>Calendar days\<close>

lemma DAY_US_pos: "0 < DAY_US"
  by (simp add: DAY_US_def)

lemma replace_midnight_date: "replace_midnight t = date_of t * DAY_US"
  by (simp add: replace_midnight_def date_of_def minus_mod_eq_mult_div)

lemma date_of_add_days: "date_of (t + d * DAY_US) = date_of t + d"
  unfolding date_of_def using DAY_US_pos by simp

lemma date_of_less: "date_of t < n \<longleftrightarrow> t < n * DAY_US"
proof -
  have "date_of t < n \<longleftrightarrow> date_of (t + (- n) * DAY_US) < 0"
    by (simp only: date_of_add_days) simp
  also have "\<dots> \<longleftrightarrow> t + (- n) * DAY_US < 0"
    unfolding date_of_def using DAY_US_pos by (simp only: pos_imp_zdiv_neg_iff)
  also have "\<dots> \<longleftrightarrow> t < n * DAY_US" by simp
  finally show ?thesis .
qed

lemma date_of_ge: "n \<le> date_of t \<longleftrightarrow> n * DAY_US \<le> t"
  using date_of_less [of t n] by linarith

lemma timedelta_days_cases:
  "timedelta_days d = (if \<bar>d\<bar> \<le> 999999999 then Inr (d * DAY_US) else Inl OverflowError)"
  by (simp add: timedelta_days_def)

lemma datetime_add_range:
  "datetime_add t delta =
     (if 0 \<le> date_of (t + delta) \<and> date_of (t + delta) < 3652059 then Inr (t + delta)
      else Inl OverflowError)"
  using date_of_ge [of 0 "t + delta"] date_of_less [of "t + delta" 3652059]
  by (simp add: datetime_add_def MAX_DATETIME_US_def DAY_US_def)

section \<open>The selection of the reminder command\<close>

lemma get_expiring_licenses_cases:
  "get_expiring_licenses rows t eu D =
     (if \<bar>D\<bar> \<le> 999999999 \<and> 0 \<le> date_of t + D \<and> date_of t + D < 3652058
      then Inr (filter
                 (\<lambda>l. status l = ACTIVATED \<and>
                      enterprise_customer_uuid (customer_agreement (subscription_plan l)) = eu \<and>
                      (date_of t + D) * DAY_US \<le> expiration_date (subscription_plan l) \<and>
                      expiration_date (subscription_plan l) < (date_of t + D + 1) * DAY_US \<and>
                      expiration_reminder_sent_date l = None)
                 rows)
      else Inl OverflowError)"
proof -
  define day where "day = date_of t + D"
  have add1: "date_of (DAY_US + DAY_US * day) = day + 1"
    using date_of_add_days [of 0 "day + 1"] by (simp add: date_of_def algebra_simps)
  have target: "date_of (t + D * DAY_US) = day"
    by (simp add: date_of_add_days day_def)
  show ?thesis
    unfolding get_expiring_licenses_def timedelta_days_cases datetime_add_range
      replace_midnight_date Let_def expiring_filter_def day_def [symmetric]
    by (auto simp: add1 target algebra_simps intro!: filter_cong)
qed

text \<open>
  C1, as the code has it.  Let \<open>day = date_of t + D\<close> be the calendar day \<open>D\<close> days after the
  current time \<open>t\<close>.  When \<open>D\<close> is a number of days that a timedelta can hold and both
  \<open>day\<close> and the day after it are dates of the datetime type, \<^verbatim>\<open>_get_expiring_licenses\<close>
  returns exactly the rows of the table, in the order of the table, with status ACTIVATED,
  of a plan of the given customer whose expiration date is at or after 00:00:00 of \<open>day\<close> and
  strictly before 00:00:00 of the following day, and with no reminder sent date.  For every
  other \<open>D\<close> it raises OverflowError.
\<close>

theorem get_expiring_licenses_calendar_day:
  "get_expiring_licenses rows t eu D =
     (if \<bar>D\<bar> \<le> 999999999 \<and> 0 \<le> date_of t + D \<and> date_of t + D < 3652058
      then Inr (filter
                 (\<lambda>l. status l = ACTIVATED \<and>
                      enterprise_customer_uuid (customer_agreement (subscription_plan l)) = eu \<and>
                      (date_of t + D) * DAY_US \<le> expiration_date (subscription_plan l) \<and>
                      expiration_date (subscription_plan l) < (date_of t + D + 1) * DAY_US \<and>
                      expiration_reminder_sent_date l = None)
                 rows)
      else Inl OverflowError)"
  by (rule get_expiring_licenses_cases)

text \<open>
  On 2026-11-04 at noon, with 30 days: of two licenses of a plan that expires on
  2026-12-04 at 01:00, the activated one is selected and the assigned one is not.
\<close>

theorem get_expiring_licenses_calendar_day_witness:
  "get_expiring_licenses
     [example_license 1 ACTIVATED 63931942800000000,
      example_license 2 ASSIGNED 63931942800000000]
     63929390400000000 7 30 =
   Inr [example_license 1 ACTIVATED 63931942800000000]"
  using get_expiring_licenses_calendar_day
    [of "[example_license 1 ACTIVATED 63931942800000000,
          example_license 2 ASSIGNED 63931942800000000]" 63929390400000000 7 30]
  by (simp add: example_license_def date_of_def DAY_US_def)

text \<open>
  C1 as stated fails: with 3000000 days the target date is after the year 9999, and the
  function raises OverflowError instead of returning the (empty) selection.
\<close>

theorem get_expiring_licenses_overflow:
  "get_expiring_licenses [] 63929390400000000 7 3000000 = Inl OverflowError"
  by (simp add: get_expiring_licenses_def timedelta_days_def datetime_add_def
      MAX_DATETIME_US_def DAY_US_def)

section \<open>The selection of the plan expiration command\<close>

lemma get_recently_expired_plan_licenses_cases:
  "get_recently_expired_plan_licenses rows t eu N =
     (if \<bar>N\<bar> \<le> 999999999 \<and> 0 \<le> date_of t - N \<and> date_of t - N < 3652059
      then Inr (filter
                 (\<lambda>l. status l = ACTIVATED \<and>
                      enterprise_customer_uuid (customer_agreement (subscription_plan l)) = eu \<and>
                      date_of t * DAY_US - N * DAY_US \<le> expiration_date (subscription_plan l) \<and>
                      expiration_date (subscription_plan l) < date_of t * DAY_US \<and>
                      subscription_plan_expiration_email_sent_date l = None)
                 rows)
      else Inl OverflowError)"
proof -
  have sub: "date_of (DAY_US * date_of t - N * DAY_US) = date_of t - N"
    using date_of_add_days [of 0 "date_of t - N"] by (simp add: date_of_def algebra_simps)
  show ?thesis
    unfolding get_recently_expired_plan_licenses_def timedelta_days_cases datetime_add_range
      replace_midnight_date Let_def recently_expired_filter_def
    by (auto simp: sub algebra_simps intro!: filter_cong)
qed

text \<open>
  C5, as the code has it.  Let \<open>today = date_of t\<close>.  When \<open>N\<close> is a number of days that a
  timedelta can hold and \<open>today - N\<close> is a date of the datetime type,
  \<^verbatim>\<open>_get_recently_expired_plan_licenses\<close> returns exactly the rows of the table, in the order
  of the table, with status ACTIVATED, of a plan of the given customer whose expiration
  date is at or after today's midnight minus \<open>N\<close> days and strictly before today's
  midnight, and with no plan expiration email sent date.  For every other \<open>N\<close> it raises
  OverflowError.
\<close>

theorem get_recently_expired_plan_licenses_window:
  "get_recently_expired_plan_licenses rows t eu N =
     (if \<bar>N\<bar> \<le> 999999999 \<and> 0 \<le> date_of t - N \<and> date_of t - N < 3652059
      then Inr (filter
                 (\<lambda>l. status l = ACTIVATED \<and>
                      enterprise_customer_uuid (customer_agreement (subscription_plan l)) = eu \<and>
                      date_of t * DAY_US - N * DAY_US \<le> expiration_date (subscription_plan l) \<and>
                      expiration_date (subscription_plan l) < date_of t * DAY_US \<and>
                      subscription_plan_expiration_email_sent_date l = None)
                 rows)
      else Inl OverflowError)"
  by (rule get_recently_expired_plan_licenses_cases)

text \<open>
  On 2026-11-04 at noon, with 7 days: a plan that expired on 2026-11-01 is in the window, a
  plan that expires later on 2026-11-04 is not.
\<close>

theorem get_recently_expired_plan_licenses_window_witness:
  "get_recently_expired_plan_licenses
     [example_license 1 ACTIVATED 63929088000000000,
      example_license 2 ACTIVATED 63929400000000000]
     63929390400000000 7 7 =
   Inr [example_license 1 ACTIVATED 63929088000000000]"
  using get_recently_expired_plan_licenses_window
    [of "[example_license 1 ACTIVATED 63929088000000000,
          example_license 2 ACTIVATED 63929400000000000]" 63929390400000000 7 7]
  by (simp add: example_license_def date_of_def DAY_US_def)

text \<open>
  C5 as stated fails: with 1000000 days the start of the window is before the year 1, and
  the function raises OverflowError instead of returning the selection.
\<close>

theorem get_recently_expired_plan_licenses_overflow:
  "get_recently_expired_plan_licenses [] 63929390400000000 7 1000000 = Inl OverflowError"
  by (simp add: get_recently_expired_plan_licenses_def timedelta_days_def datetime_add_def
      replace_midnight_def MAX_DATETIME_US_def DAY_US_def)

section \<open>The parser returns the tokens\<close>

lemma takeWhile_word:
  "\<forall>c\<in>set q. \<not> is_separator c \<Longrightarrow> s = [] \<or> is_separator (hd s) \<Longrightarrow>
   takeWhile (\<lambda>x. \<not> is_separator x) (q @ s) = q"
proof (induction q)
  case Nil
  then show ?case by (cases s) auto
next
  case (Cons a q)
  then show ?case by simp
qed

lemma dropWhile_word:
  "\<forall>c\<in>set q. \<not> is_separator c \<Longrightarrow> s = [] \<or> is_separator (hd s) \<Longrightarrow>
   dropWhile (\<lambda>x. \<not> is_separator x) (q @ s) = s"
proof (induction q)
  case Nil
  then show ?case by (cases s) auto
next
  case (Cons a q)
  then show ?case by simp
qed

lemma tokens_word:
  assumes "p \<noteq> []" and "\<forall>c\<in>set p. \<not> is_separator c" and "s = [] \<or> is_separator (hd s)"
  shows "tokens (p @ s) = p # tokens s"
proof -
  from assms(1) obtain a q where p: "p = a # q" by (cases p) auto
  have q: "\<forall>c\<in>set q. \<not> is_separator c" and a: "\<not> is_separator a"
    using assms(2) p by auto
  have "tokens (a # (q @ s)) =
          (a # takeWhile (\<lambda>x. \<not> is_separator x) (q @ s)) #
          tokens (dropWhile (\<lambda>x. \<not> is_separator x) (q @ s))"
    using a by simp
  then show ?thesis
    by (simp only: p append_Cons takeWhile_word [OF q assms(3)] dropWhile_word [OF q assms(3)])
qed

lemma tokens_sep: "is_separator c \<Longrightarrow> tokens (c # s) = tokens s"
  by simp


declare tokens.simps [simp del]

lemma re_split_from_tokens:
  "\<forall>c\<in>set cur. \<not> is_separator c \<Longrightarrow> (in_run \<longrightarrow> cur = []) \<Longrightarrow>
   filter (\<lambda>p. p \<noteq> []) (re_split_from cur in_run s) = tokens (rev cur @ s)"
proof (induction cur in_run s rule: re_split_from.induct)
  case (1 cur in_run)
  show ?case
  proof (cases "cur = []")
    case True then show ?thesis by (simp add: tokens.simps(1))
  next
    case False
    then have "tokens (rev cur @ []) = rev cur # tokens []"
      using 1 by (intro tokens_word) auto
    then show ?thesis using False by (simp add: tokens.simps(1))
  qed
next
  case (2 cur in_run c cs)
  show ?case
  proof (cases "is_separator c")
    case True
    note sep = this
    have ih: "filter (\<lambda>p. p \<noteq> []) (re_split_from [] True cs) = tokens cs"
      using 2(1,2) sep by (cases in_run) simp_all
    show ?thesis
    proof (cases "cur = []")
      case True
      then show ?thesis using sep ih by (simp add: tokens_sep)
    next
      case False
      then have nr: "\<not> in_run" using 2 by simp
      have "tokens (rev cur @ c # cs) = rev cur # tokens (c # cs)"
        using False 2(4) sep by (intro tokens_word) auto
      then show ?thesis using sep nr ih False by (simp add: tokens_sep)
    qed
  next
    case False
    then have "filter (\<lambda>p. p \<noteq> []) (re_split_from (c # cur) False cs) = tokens (rev (c # cur) @ cs)"
      using 2(3) 2(4) by simp
    then show ?thesis using False by simp
  qed
qed

lemma re_split_from_no_separator:
  "\<forall>c\<in>set cur. \<not> is_separator c \<Longrightarrow>
   \<forall>p\<in>set (re_split_from cur in_run s). \<forall>c\<in>set p. \<not> is_separator c"
proof (induction cur in_run s rule: re_split_from.induct)
  case (1 cur in_run)
  then show ?case by simp
next
  case (2 cur in_run c cs)
  show ?case
  proof (cases "is_separator c")
    case True
    note sep = this
    have e: "\<forall>c\<in>set ([]::pystr). \<not> is_separator c" by simp
    show ?thesis
    proof (cases in_run)
      case True
      have "\<forall>p\<in>set (re_split_from [] True cs). \<forall>c\<in>set p. \<not> is_separator c"
        using 2(1) [OF sep True e] .
      then show ?thesis using sep True by simp
    next
      case False
      have "\<forall>p\<in>set (re_split_from [] True cs). \<forall>c\<in>set p. \<not> is_separator c"
        using 2(2) [OF sep False e] .
      then show ?thesis using sep False 2(4) by simp
    qed
  next
    case False
    have "\<forall>x\<in>set (c # cur). \<not> is_separator x" using False 2(4) by simp
    then have "\<forall>p\<in>set (re_split_from (c # cur) False cs). \<forall>c\<in>set p. \<not> is_separator c"
      by (rule 2(3) [OF False])
    then show ?thesis using False by simp
  qed
qed

lemma tokens_all_separators: "\<forall>c\<in>set t. is_separator c \<Longrightarrow> tokens t = []"
  by (induction t) (simp_all add: tokens.simps(1) tokens_sep)

lemma tokens_trailing:
  "\<forall>c\<in>set t. is_separator c \<Longrightarrow> tokens (s @ t) = tokens s"
proof (induction s rule: tokens.induct)
  case 1
  then show ?case by (simp add: tokens_all_separators tokens.simps(1))
next
  case (2 c cs)
  let ?P = "\<lambda>x. \<not> is_separator x"
  show ?case
  proof (cases "is_separator c")
    case True
    then show ?thesis using 2 by (simp add: tokens_sep)
  next
    case False
    note nsep = this
    have hd_t: "t = [] \<or> is_separator (hd t)" using 2(3) by (cases t) auto
    show ?thesis
    proof (cases "\<forall>x\<in>set cs. ?P x")
      case True
      have "tokens ((c # cs) @ t) = (c # cs) # tokens t"
        using nsep True hd_t by (intro tokens_word) auto
      moreover have "tokens ((c # cs) @ []) = (c # cs) # tokens []"
        using nsep True by (intro tokens_word) auto
      ultimately show ?thesis
        using 2(3) by (simp add: tokens_all_separators tokens.simps(1))
    next
      case False
      then obtain x where x: "x \<in> set cs" "\<not> ?P x" by blast
      have tw: "takeWhile ?P (cs @ t) = takeWhile ?P cs"
        using x by (rule takeWhile_append1)
      have dw: "dropWhile ?P (cs @ t) = dropWhile ?P cs @ t"
        using x by (rule dropWhile_append1)
      have "tokens (dropWhile ?P cs @ t) = tokens (dropWhile ?P cs)"
        using 2(2) [OF nsep 2(3)] .
      then show ?thesis using nsep by (simp add: tokens.simps(2) tw dw)
    qed
  qed
qed

lemma tokens_dropWhile_isspace: "tokens (dropWhile isspace s) = tokens s"
  by (induction s) (simp_all add: tokens_sep is_separator_def)

lemma tokens_strip: "tokens (strip s) = tokens s"
proof -
  let ?u = "dropWhile isspace s"
  have split: "?u = rev (dropWhile isspace (rev ?u)) @ rev (takeWhile isspace (rev ?u))"
    by (metis rev_append rev_rev_ident takeWhile_dropWhile_id)
  have seps: "\<forall>c\<in>set (rev (takeWhile isspace (rev ?u))). is_separator c"
    by (auto simp: is_separator_def dest: set_takeWhileD)
  have "tokens (strip s) = tokens (rev (dropWhile isspace (rev ?u)))"
    by (simp add: strip_def)
  also have "\<dots> = tokens (rev (dropWhile isspace (rev ?u)) @ rev (takeWhile isspace (rev ?u)))"
    using tokens_trailing [OF seps] by simp
  also have "\<dots> = tokens ?u" using split by simp
  also have "\<dots> = tokens s" by (rule tokens_dropWhile_isspace)
  finally show ?thesis .
qed

lemma isspace_is_separator: "isspace c \<Longrightarrow> is_separator c"
  by (simp add: is_separator_def)

lemma dropWhile_none: "\<forall>c\<in>set p. \<not> P c \<Longrightarrow> dropWhile P p = p"
  by (cases p) auto

lemma strip_no_space: "\<forall>c\<in>set p. \<not> is_separator c \<Longrightarrow> strip p = p"
proof -
  assume h: "\<forall>c\<in>set p. \<not> is_separator c"
  then have ns: "\<forall>c\<in>set p. \<not> isspace c" using isspace_is_separator by blast
  then have a: "dropWhile isspace p = p" by (rule dropWhile_none)
  from ns have "\<forall>c\<in>set (rev p). \<not> isspace c" by simp
  then have b: "dropWhile isspace (rev p) = rev p" by (rule dropWhile_none)
  show ?thesis by (simp add: strip_def a b)
qed

lemma validate_uuids_iff:
  "validate_uuids mkUUID items =
     (if \<exists>item\<in>set items. mkUUID item = None then Some ValueError else None)"
  by (induction items) (auto split: option.splits)

lemma parsed_items_tokens:
  "map strip (filter (\<lambda>u. strip u \<noteq> []) (re_split (strip s))) = tokens s"
proof -
  let ?pieces = "re_split (strip s)"
  have nosep: "\<forall>p\<in>set ?pieces. \<forall>c\<in>set p. \<not> is_separator c"
    unfolding re_split_def by (rule re_split_from_no_separator) simp
  have id: "\<forall>p\<in>set ?pieces. strip p = p"
    using nosep strip_no_space by blast
  have "filter (\<lambda>u. strip u \<noteq> []) ?pieces = filter (\<lambda>u. u \<noteq> []) ?pieces"
    using id by (intro filter_cong) auto
  moreover have "map strip (filter (\<lambda>u. u \<noteq> []) ?pieces) = filter (\<lambda>u. u \<noteq> []) ?pieces"
    using id by (intro map_idI) auto
  moreover have "filter (\<lambda>u. u \<noteq> []) ?pieces = tokens (strip s)"
    unfolding re_split_def using re_split_from_tokens [of "[]" False "strip s"] by simp
  ultimately show ?thesis by (simp add: tokens_strip)
qed

lemma parse_tokens:
  "parse_enterprise_customer_uuids mkUUID s =
     (if \<exists>t\<in>set (tokens s). mkUUID t = None then Inl ValueError else Inr (tokens s))"
  unfolding parse_enterprise_customer_uuids_def Let_def parsed_items_tokens
  by (simp add: validate_uuids_iff)

text \<open>
  C10.  For every input string, \<^verbatim>\<open>_parse_enterprise_customer_uuids\<close> raises ValueError if
  and only if some token of the string is not accepted by \<^verbatim>\<open>uuid.UUID\<close>, and otherwise
  returns the tokens of the string, in order.  A string of separators only yields the
  empty list, and then \<^verbatim>\<open>handle\<close> of either command raises ValueError and leaves the world
  as it was: no customer is processed.
\<close>

theorem parse_enterprise_customer_uuids_tokens:
  "parse_enterprise_customer_uuids mkUUID s =
     (if \<exists>t\<in>set (tokens s). mkUUID t = None then Inl ValueError else Inr (tokens s)) \<and>
   ((\<forall>c\<in>set s. is_separator c) \<longrightarrow>
      parse_enterprise_customer_uuids mkUUID s = Inr [] \<and>
      handle_reminders mkUUID e w s days dry_run = (w, Inl ValueError) \<and>
      handle_plan_expiration mkUUID e w s days dry_run = (w, Inl ValueError))"
  by (simp add: parse_tokens tokens_all_separators handle_reminders_def
      handle_plan_expiration_def)

text \<open>
  The strings \<^verbatim>\<open>" ab,, cd "\<close>, \<^verbatim>\<open>"ab, c"\<close> and \<^verbatim>\<open>" , "\<close>, when the valid UUIDs are the
  strings of two characters.
\<close>

theorem parse_enterprise_customer_uuids_tokens_witness:
  "parse_enterprise_customer_uuids example_mkUUID [32, 97, 98, 44, 44, 32, 99, 100, 32] =
     Inr [[97, 98], [99, 100]] \<and>
   parse_enterprise_customer_uuids example_mkUUID [97, 98, 44, 32, 99] = Inl ValueError \<and>
   parse_enterprise_customer_uuids example_mkUUID [32, 44, 32] = Inr [] \<and>
   handle_reminders example_mkUUID example_env example_world [32, 44, 32] 30 False =
     (example_world, Inl ValueError) \<and>
   handle_plan_expiration example_mkUUID example_env example_world [32, 44, 32] 7 False =
     (example_world, Inl ValueError)"
  using
    parse_enterprise_customer_uuids_tokens
      [of example_mkUUID "[32, 97, 98, 44, 44, 32, 99, 100, 32]"]
    parse_enterprise_customer_uuids_tokens [of example_mkUUID "[97, 98, 44, 32, 99]"]
    parse_enterprise_customer_uuids_tokens
      [of example_mkUUID "[32, 44, 32]" example_env example_world 30 False]
    parse_enterprise_customer_uuids_tokens
      [of example_mkUUID "[32, 44, 32]" example_env example_world 7 False]
  by (simp add: tokens.simps is_separator_def isspace_def example_mkUUID_def)

section \<open>Retiring old licenses, row by row\<close>

text \<open>
  With a primary key, the loop that saves every fetched object changes exactly the selected
  rows, so that one run of the command is three passes over the table.
\<close>

lemma map_uuid_save: "uuid obj = pk \<Longrightarrow> map uuid (save obj rows) = map uuid rows"
  by (induction rows) (auto simp: save_def)

lemma retire_each_find:
  "distinct (map uuid objs) \<Longrightarrow> (\<And>l. uuid (f l) = uuid l) \<Longrightarrow>
   retire_each f objs rows =
     map (\<lambda>r. case find (\<lambda>obj. uuid obj = uuid r) objs of Some obj \<Rightarrow> f obj | None \<Rightarrow> r) rows"
proof (induction objs arbitrary: rows)
  case Nil
  then show ?case by simp
next
  case (Cons obj objs)
  have nf: "find (\<lambda>x. uuid x = uuid obj) objs = None"
    using Cons.prems(1) by (auto simp: find_None_iff image_iff)
  have "retire_each f (obj # objs) rows = retire_each f objs (save (f obj) rows)" by simp
  also have "\<dots> = map (\<lambda>r. case find (\<lambda>x. uuid x = uuid r) objs of Some x \<Rightarrow> f x | None \<Rightarrow> r)
                      (save (f obj) rows)"
    using Cons.prems by (intro Cons.IH) auto
  also have "\<dots> = map (\<lambda>r. case find (\<lambda>x. uuid x = uuid r) (obj # objs) of
                               Some x \<Rightarrow> f x | None \<Rightarrow> r) rows"
    using nf Cons.prems(2) by (auto simp: save_def)
  finally show ?case .
qed

lemma find_filter_row:
  "distinct (map uuid rows) \<Longrightarrow> r \<in> set rows \<Longrightarrow>
   find (\<lambda>obj. uuid obj = uuid r) (filter P rows) = (if P r then Some r else None)"
proof (induction rows)
  case Nil
  then show ?case by simp
next
  case (Cons a rows)
  show ?case
  proof (cases "r = a")
    case True
    have "find (\<lambda>obj. uuid obj = uuid a) (filter P rows) = None"
      using Cons.prems(1) by (auto simp: find_None_iff image_iff)
    then show ?thesis using True by simp
  next
    case False
    then have "r \<in> set rows" using Cons.prems by simp
    then have "uuid a \<noteq> uuid r" using Cons.prems(1) by auto
    then show ?thesis using Cons \<open>r \<in> set rows\<close> by simp
  qed
qed

lemma retire_each_filter:
  assumes "distinct (map uuid rows)" and "\<And>l. uuid (f l) = uuid l"
  shows "retire_each f (filter P rows) rows = map (\<lambda>r. if P r then f r else r) rows"
proof -
  have "distinct (map uuid (filter P rows))"
    using assms(1) by (simp add: distinct_map_filter)
  then have "retire_each f (filter P rows) rows =
     map (\<lambda>r. case find (\<lambda>obj. uuid obj = uuid r) (filter P rows) of
                 Some obj \<Rightarrow> f obj | None \<Rightarrow> r) rows"
    using assms(2) by (rule retire_each_find)
  also have "\<dots> = map (\<lambda>r. if P r then f r else r) rows"
    using find_filter_row [OF assms(1)] by (intro map_cong) auto
  finally show ?thesis .
qed

lemma get_license_member:
  "distinct (map uuid rows) \<Longrightarrow> l \<in> set rows \<Longrightarrow> get_license rows (uuid l) = Some l"
  unfolding get_license_def
proof (induction rows)
  case Nil
  then show ?case by simp
next
  case (Cons a rows)
  then show ?case by (cases "l = a") auto
qed

lemma get_license_map:
  "(\<And>r. uuid (g r) = uuid r) \<Longrightarrow>
   get_license (map g rows) pk = map_option g (get_license rows pk)"
  unfolding get_license_def by (induction rows) auto


lemma uuid_clear_pii: "uuid (clear_pii l) = uuid l"
  by (simp add: clear_pii_def)

lemma uuid_reset_to_unassigned: "uuid (reset_to_unassigned l) = uuid l"
  by (simp add: reset_to_unassigned_def)

lemma retire_old_licenses_row:
  assumes d: "distinct (map uuid rows)" and l: "l \<in> set rows"
    and c: "DAYS_TO_RETIRE \<le> date_of t"
  shows "case retire_old_licenses rows t of
           Inl x \<Rightarrow> False
         | Inr rows' \<Rightarrow>
             get_license rows' (uuid l) =
               Some (let ready = date_of t - DAYS_TO_RETIRE;
                         l1 = (if expired_for_retirement ready l
                               then (clear_pii l)\<lparr>status := REVOKED, revoked_date := Some t\<rparr>
                               else l);
                         l2 = (if revoked_for_retirement ready l1 then clear_pii l1 else l1)
                     in if assigned_for_retirement ready l2 then reset_to_unassigned l2 else l2)"
proof -
  define ready where "ready = date_of t - DAYS_TO_RETIRE"
  define g1 where "g1 = (\<lambda>r. if expired_for_retirement ready r
                             then (clear_pii r)\<lparr>status := REVOKED, revoked_date := Some t\<rparr> else r)"
  define g2 where "g2 = (\<lambda>r. if revoked_for_retirement ready r then clear_pii r else r)"
  define g3 where "g3 = (\<lambda>r. if assigned_for_retirement ready r then reset_to_unassigned r else r)"
  have u1: "\<And>r. uuid (g1 r) = uuid r" by (simp add: g1_def uuid_clear_pii)
  have u2: "\<And>r. uuid (g2 r) = uuid r" by (simp add: g2_def uuid_clear_pii)
  have u3: "\<And>r. uuid (g3 r) = uuid r" by (simp add: g3_def uuid_reset_to_unassigned)
  have d1: "distinct (map uuid (map g1 rows))" using d u1 by (simp add: comp_def)
  have d2: "distinct (map uuid (map g2 (map g1 rows)))" using d u1 u2 by (simp add: comp_def)
  have p1: "retire_each (\<lambda>l. (clear_pii l)\<lparr>status := REVOKED, revoked_date := Some t\<rparr>)
              (filter (expired_for_retirement ready) rows) rows = map g1 rows"
    unfolding g1_def by (rule retire_each_filter [OF d]) (simp add: uuid_clear_pii)
  have p2: "retire_each clear_pii (filter (revoked_for_retirement ready) (map g1 rows)) (map g1 rows) =
              map g2 (map g1 rows)"
    unfolding g2_def by (rule retire_each_filter [OF d1]) (simp add: uuid_clear_pii)
  have p3: "retire_each reset_to_unassigned
              (filter (assigned_for_retirement ready) (map g2 (map g1 rows))) (map g2 (map g1 rows)) =
              map g3 (map g2 (map g1 rows))"
    unfolding g3_def by (rule retire_each_filter [OF d2]) (simp add: uuid_reset_to_unassigned)
  have res: "retire_old_licenses rows t = Inr (map g3 (map g2 (map g1 rows)))"
    using c unfolding retire_old_licenses_def Let_def
    by (simp add: p1 [unfolded ready_def] p2 [unfolded ready_def] p3 [unfolded ready_def]
        del: map_map)
  have "get_license (map g3 (map g2 (map g1 rows))) (uuid l) = Some (g3 (g2 (g1 l)))"
    using get_license_member [OF d l] by (simp add: get_license_map u1 u2 u3 del: map_map)
  then show ?thesis
    unfolding res by (simp add: Let_def g1_def g2_def g3_def ready_def)
qed

lemma date_of_nonneg: "0 \<le> x \<Longrightarrow> 0 \<le> date_of x"
  using date_of_ge [of 0 x] by simp

text \<open>
  C6.  On each run of \<^verbatim>\<open>retire_old_licenses\<close>, for every license of the table with a non-null
  \<open>user_email\<close> whose plan's expiration date is more than \<open>DAYS_TO_RETIRE\<close> (90) days before
  today's date, whatever its status: the command returns, and in the table it leaves the
  license has its PII cleared, the status REVOKED and the current time as \<open>revoked_date\<close>.
  The table has a primary key, and the expiration date is a value of the datetime type.
\<close>

theorem retire_expired_licenses:
  assumes "distinct (map uuid rows)" and "l \<in> set rows"
    and "user_email l \<noteq> None"
    and "0 \<le> expiration_date (subscription_plan l)"
    and "date_of (expiration_date (subscription_plan l)) + DAYS_TO_RETIRE < date_of t"
  shows "case retire_old_licenses rows t of
           Inl x \<Rightarrow> False
         | Inr rows' \<Rightarrow>
             get_license rows' (uuid l) =
               Some (l\<lparr>user_email := None, lms_user_id := None,
                       status := REVOKED, revoked_date := Some t\<rparr>)"
proof -
  have c: "DAYS_TO_RETIRE \<le> date_of t"
    using assms(5) date_of_nonneg [OF assms(4)] by simp
  have e: "expired_for_retirement (date_of t - DAYS_TO_RETIRE) l"
    using assms(3,5) date_of_less [of "expiration_date (subscription_plan l)" "date_of t - DAYS_TO_RETIRE"]
    by (simp add: expired_for_retirement_def)
  show ?thesis
    using retire_old_licenses_row [OF assms(1,2) c] e
    by (simp add: Let_def clear_pii_def revoked_for_retirement_def assigned_for_retirement_def
        split: sum.splits)
qed

text \<open>
  On 2026-11-04, an activated license of a plan that expired on 2026-07-27, 100 days before.
\<close>

theorem retire_expired_licenses_witness:
  "case retire_old_licenses
          [example_license 1 ACTIVATED 63920707200000000,
           example_license 2 ACTIVATED 63931942800000000] 63929390400000000 of
     Inl x \<Rightarrow> False
   | Inr rows' \<Rightarrow>
       get_license rows' (uuid (example_license 1 ACTIVATED 63920707200000000)) =
         Some ((example_license 1 ACTIVATED 63920707200000000)
                 \<lparr>user_email := None, lms_user_id := None,
                  status := REVOKED, revoked_date := Some 63929390400000000\<rparr>)"
  by (rule retire_expired_licenses)
    (simp_all add: example_license_def date_of_def DAY_US_def DAYS_TO_RETIRE_def)

text \<open>
  C7, as the code has it.  On each run, every license with status ASSIGNED and a non-null
  \<open>assigned_date\<close> whose date is more than 90 days before today is reset to unassigned,
  which scrubs its assignment data and its PII, unless the first loop retires it as expired:
  the license must have no \<open>user_email\<close>, or a plan whose expiration date is not more than
  90 days before today.
\<close>

theorem retire_assigned_licenses:
  assumes "distinct (map uuid rows)" and "l \<in> set rows"
    and "status l = ASSIGNED"
    and "assigned_date l = Some a" and "0 \<le> a"
    and "date_of a + DAYS_TO_RETIRE < date_of t"
    and "user_email l = None \<or>
         date_of t \<le> date_of (expiration_date (subscription_plan l)) + DAYS_TO_RETIRE"
  shows "case retire_old_licenses rows t of
           Inl x \<Rightarrow> False
         | Inr rows' \<Rightarrow>
             get_license rows' (uuid l) = Some (reset_to_unassigned l) \<and>
             status (reset_to_unassigned l) = UNASSIGNED \<and>
             user_email (reset_to_unassigned l) = None \<and>
             lms_user_id (reset_to_unassigned l) = None \<and>
             assigned_date (reset_to_unassigned l) = None"
proof -
  have c: "DAYS_TO_RETIRE \<le> date_of t"
    using assms(6) date_of_nonneg [OF assms(5)] by simp
  have e: "\<not> expired_for_retirement (date_of t - DAYS_TO_RETIRE) l"
    using assms(7) date_of_less [of "expiration_date (subscription_plan l)" "date_of t - DAYS_TO_RETIRE"]
    by (auto simp: expired_for_retirement_def)
  show ?thesis
    using retire_old_licenses_row [OF assms(1,2) c] e assms(3,4,6)
    by (simp add: Let_def reset_to_unassigned_def revoked_for_retirement_def
        assigned_for_retirement_def split: sum.splits)
qed

text \<open>
  On 2026-11-04, a license assigned on 2026-07-27 of a plan that expires on 2026-12-04.
\<close>

theorem retire_assigned_licenses_witness:
  "case retire_old_licenses
          [example_license 1 ACTIVATED 63931942800000000,
           (example_license 2 ASSIGNED 63931942800000000)
             \<lparr>assigned_date := Some 63920707200000000\<rparr>] 63929390400000000 of
     Inl x \<Rightarrow> False
   | Inr rows' \<Rightarrow>
       get_license rows'
           (uuid ((example_license 2 ASSIGNED 63931942800000000)
                    \<lparr>assigned_date := Some 63920707200000000\<rparr>)) =
         Some (reset_to_unassigned
                 ((example_license 2 ASSIGNED 63931942800000000)
                    \<lparr>assigned_date := Some 63920707200000000\<rparr>)) \<and>
       status (reset_to_unassigned
                 ((example_license 2 ASSIGNED 63931942800000000)
                    \<lparr>assigned_date := Some 63920707200000000\<rparr>)) = UNASSIGNED \<and>
       user_email (reset_to_unassigned
                 ((example_license 2 ASSIGNED 63931942800000000)
                    \<lparr>assigned_date := Some 63920707200000000\<rparr>)) = None \<and>
       lms_user_id (reset_to_unassigned
                 ((example_license 2 ASSIGNED 63931942800000000)
                    \<lparr>assigned_date := Some 63920707200000000\<rparr>)) = None \<and>
       assigned_date (reset_to_unassigned
                 ((example_license 2 ASSIGNED 63931942800000000)
                    \<lparr>assigned_date := Some 63920707200000000\<rparr>)) = None"
  by (rule retire_assigned_licenses [where a = 63920707200000000])
    (simp_all add: example_license_def date_of_def DAY_US_def DAYS_TO_RETIRE_def)

text \<open>
  C7 as stated fails: a license assigned 100 days ago, with an email address, of a plan that
  expired 100 days ago is revoked by the first loop.  It is not reset to unassigned and it
  keeps its \<open>assigned_date\<close>.
\<close>

theorem retire_assigned_licenses_expired_plan:
  "retire_old_licenses
     [(example_license 1 ASSIGNED 63920707200000000)
        \<lparr>assigned_date := Some 63920707200000000\<rparr>] 63929390400000000 =
   Inr [(example_license 1 ASSIGNED 63920707200000000)
          \<lparr>assigned_date := Some 63920707200000000, user_email := None, lms_user_id := None,
           status := REVOKED, revoked_date := Some 63929390400000000\<rparr>]"
  by (simp add: retire_old_licenses_def example_license_def date_of_def DAY_US_def
      DAYS_TO_RETIRE_def Let_def expired_for_retirement_def revoked_for_retirement_def
      assigned_for_retirement_def clear_pii_def save_def)

text \<open>
  C8, as the code has it.  For every license with status REVOKED, a non-null \<open>user_email\<close>
  and a non-null \<open>revoked_date\<close> whose date is more than 90 days before today, and of a plan
  whose expiration date is not more than 90 days before today, the command clears only the
  PII fields: the status, the \<open>revoked_date\<close> and every other field are as they were.
\<close>

theorem retire_revoked_licenses:
  assumes "distinct (map uuid rows)" and "l \<in> set rows"
    and "status l = REVOKED" and "user_email l \<noteq> None"
    and "revoked_date l = Some d" and "0 \<le> d"
    and "date_of d + DAYS_TO_RETIRE < date_of t"
    and "date_of t \<le> date_of (expiration_date (subscription_plan l)) + DAYS_TO_RETIRE"
  shows "case retire_old_licenses rows t of
           Inl x \<Rightarrow> False
         | Inr rows' \<Rightarrow>
             get_license rows' (uuid l) = Some (l\<lparr>user_email := None, lms_user_id := None\<rparr>)"
proof -
  have c: "DAYS_TO_RETIRE \<le> date_of t"
    using assms(7) date_of_nonneg [OF assms(6)] by simp
  have e: "\<not> expired_for_retirement (date_of t - DAYS_TO_RETIRE) l"
    using assms(8) date_of_less [of "expiration_date (subscription_plan l)" "date_of t - DAYS_TO_RETIRE"]
    by (auto simp: expired_for_retirement_def)
  show ?thesis
    using retire_old_licenses_row [OF assms(1,2) c] e assms(3,4,5,7)
    by (simp add: Let_def clear_pii_def revoked_for_retirement_def
        assigned_for_retirement_def split: sum.splits)
qed

text \<open>
  On 2026-11-04, a license revoked on 2026-07-27 of a plan that expires on 2026-12-04.
\<close>

theorem retire_revoked_licenses_witness:
  "case retire_old_licenses
          [example_license 1 ACTIVATED 63931942800000000,
           (example_license 2 REVOKED 63931942800000000)
             \<lparr>revoked_date := Some 63920707200000000\<rparr>] 63929390400000000 of
     Inl x \<Rightarrow> False
   | Inr rows' \<Rightarrow>
       get_license rows'
           (uuid ((example_license 2 REVOKED 63931942800000000)
                    \<lparr>revoked_date := Some 63920707200000000\<rparr>)) =
         Some ((example_license 2 REVOKED 63931942800000000)
                 \<lparr>revoked_date := Some 63920707200000000,
                  user_email := None, lms_user_id := None\<rparr>)"
  by (rule retire_revoked_licenses [where d = 63920707200000000])
    (simp_all add: example_license_def date_of_def DAY_US_def DAYS_TO_RETIRE_def)

text \<open>
  C8 as stated fails: for a license revoked 100 days ago of a plan that expired 100 days
  ago, the first loop overwrites \<open>revoked_date\<close> with the current time.
\<close>

theorem retire_revoked_licenses_expired_plan:
  "retire_old_licenses
     [(example_license 1 REVOKED 63920707200000000)
        \<lparr>revoked_date := Some 63920707200000000\<rparr>] 63929390400000000 =
   Inr [(example_license 1 REVOKED 63920707200000000)
          \<lparr>user_email := None, lms_user_id := None,
           revoked_date := Some 63929390400000000\<rparr>]"
  by (simp add: retire_old_licenses_def example_license_def date_of_def DAY_US_def
      DAYS_TO_RETIRE_def Let_def expired_for_retirement_def revoked_for_retirement_def
      assigned_for_retirement_def clear_pii_def save_def)

section \<open>Dry runs\<close>

lemma select_licenses_eligible:
  "select_licenses c rows t eu days =
     (if window_representable c t days then Inr (filter (eligible c t days eu) rows)
      else Inl OverflowError)"
proof (cases c)
  case Reminder
  then show ?thesis
    by (simp add: select_licenses_def get_expiring_licenses_cases window_representable_def
        eligible_def [abs_def] in_window_def sent_date_def)
next
  case PlanExpiration
  then show ?thesis
    by (simp add: select_licenses_def get_recently_expired_plan_licenses_cases
        window_representable_def eligible_def [abs_def] in_window_def sent_date_def)
qed

lemma process_dry_run:
  "process_enterprise_customer c e w eu days True =
     (w\<lparr>processing := processing w @ [eu]\<rparr>,
      if window_representable c (now e) days then Inr (0, 0) else Inl OverflowError)"
  by (simp add: process_enterprise_customer_def Let_def select_licenses_eligible)

lemma reminder_loop_dry_run:
  "reminder_loop mkUUID e w items days True s f =
     (w\<lparr>processing := processing w @ List.map_filter mkUUID items\<rparr>,
      Inr (s, f + (if window_representable Reminder (now e) days
                   then length (filter (\<lambda>i. mkUUID i = None) items) else length items)))"
proof (induction items arbitrary: w f)
  case Nil
  then show ?case by (simp add: List.map_filter_simps)
next
  case (Cons item items)
  show ?case
  proof (cases "mkUUID item")
    case None
    then show ?thesis using Cons [of w "f + 1"] by (simp add: List.map_filter_simps)
  next
    case (Some eu)
    then show ?thesis
      using Cons [of "w\<lparr>processing := processing w @ [eu]\<rparr>" f]
        Cons [of "w\<lparr>processing := processing w @ [eu]\<rparr>" "f + 1"]
      by (simp add: List.map_filter_simps process_dry_run)
  qed
qed

lemma plan_expiration_loop_dry_run:
  "plan_expiration_loop mkUUID e w items days True s f g =
     (w\<lparr>processing := processing w @ List.map_filter mkUUID items\<rparr>,
      Inr (s, f, g + (if window_representable PlanExpiration (now e) days
                      then length (filter (\<lambda>i. mkUUID i = None) items) else length items)))"
proof (induction items arbitrary: w g)
  case Nil
  then show ?case by (simp add: List.map_filter_simps)
next
  case (Cons item items)
  show ?case
  proof (cases "mkUUID item")
    case None
    then show ?thesis using Cons [of w "g + 1"] by (simp add: List.map_filter_simps)
  next
    case (Some eu)
    then show ?thesis
      using Cons [of "w\<lparr>processing := processing w @ [eu]\<rparr>" g]
        Cons [of "w\<lparr>processing := processing w @ [eu]\<rparr>" "g + 1"]
      by (simp add: List.map_filter_simps process_dry_run)
  qed
qed

lemma parse_valid_items:
  "parse_enterprise_customer_uuids mkUUID s = Inr items \<Longrightarrow> \<forall>i\<in>set items. mkUUID i \<noteq> None"
  by (auto simp: parse_tokens split: if_splits)


lemma handle_reminders_dry_run:
  "handle_reminders mkUUID e w s days True =
     (case parse_enterprise_customer_uuids mkUUID s of
        Inl x \<Rightarrow> (w, Inl x)
      | Inr items \<Rightarrow>
          if items = [] then (w, Inl ValueError)
          else (w\<lparr>processing := processing w @ List.map_filter mkUUID items\<rparr>,
                if window_representable Reminder (now e) days then Inr () else Inl Exception))"
proof (cases "parse_enterprise_customer_uuids mkUUID s")
  case (Inl x)
  then show ?thesis by (simp add: handle_reminders_def)
next
  case (Inr items)
  then have "filter (\<lambda>i. mkUUID i = None) items = []"
    using parse_valid_items [OF Inr] by (simp add: filter_empty_conv)
  then show ?thesis
    using Inr by (simp add: handle_reminders_def reminder_loop_dry_run)
qed

lemma handle_plan_expiration_dry_run:
  "handle_plan_expiration mkUUID e w s days True =
     (case parse_enterprise_customer_uuids mkUUID s of
        Inl x \<Rightarrow> (w, Inl x)
      | Inr items \<Rightarrow>
          if items = [] then (w, Inl ValueError)
          else (w\<lparr>processing := processing w @ List.map_filter mkUUID items\<rparr>,
                if window_representable PlanExpiration (now e) days then Inr ()
                else Inl Exception))"
proof (cases "parse_enterprise_customer_uuids mkUUID s")
  case (Inl x)
  then show ?thesis by (simp add: handle_plan_expiration_def)
next
  case (Inr items)
  then have "filter (\<lambda>i. mkUUID i = None) items = []"
    using parse_valid_items [OF Inr] by (simp add: filter_empty_conv)
  then show ?thesis
    using Inr by (simp add: handle_plan_expiration_def plan_expiration_loop_dry_run)
qed

lemma customer_results_dry_run:
  "\<forall>i\<in>set items. mkUUID i \<noteq> None \<Longrightarrow>
   customer_results c mkUUID e w items days True =
     replicate (length items)
       (if window_representable c (now e) days then Inr (0, 0) else Inl OverflowError)"
proof (induction items arbitrary: w)
  case Nil
  then show ?case by simp
next
  case (Cons item items)
  then obtain eu where eu: "mkUUID item = Some eu" by auto
  have rest: "\<forall>i\<in>set items. mkUUID i \<noteq> None" using Cons.prems by simp
  show ?case
    using eu Cons.IH [OF rest, of "w\<lparr>processing := processing w @ [eu]\<rparr>"]
    by (simp add: process_dry_run)
qed

text \<open>
  C9, as the code has it.  With \<^verbatim>\<open>--dry-run\<close>, for every input: a processed customer
  contributes the counts \<open>(0, 0)\<close> when the date window can be computed, and raises
  OverflowError otherwise; the run of either command sends no email, writes no field of any
  license and does not call the enterprise API or Braze.  The command raises ValueError
  when the string of UUIDs does not parse or holds no UUID.  Otherwise, when the date window
  can be computed, every customer contributes \<open>(0, 0)\<close> and the command exits normally; when
  the date window cannot be computed, every customer is counted as one failure and the
  command raises the end-of-run failure exception.
\<close>

theorem dry_run_changes_nothing:
  "process_enterprise_customer c e w eu days True =
     (w\<lparr>processing := processing w @ [eu]\<rparr>,
      if window_representable c (now e) days then Inr (0, 0) else Inl OverflowError) \<and>
   (let h = handle_reminders mkUUID e w s days True in
      licenses (fst h) = licenses w \<and> sent (fst h) = sent w \<and>
      send_failures (fst h) = send_failures w \<and> api_calls (fst h) = api_calls w \<and>
      braze_calls (fst h) = braze_calls w \<and>
      (window_representable Reminder (now e) days \<longrightarrow> snd h \<noteq> Inl Exception) \<and>
      (parse_enterprise_customer_uuids mkUUID s = Inr items \<and> items \<noteq> [] \<and>
       \<not> window_representable Reminder (now e) days \<longrightarrow> snd h = Inl Exception) \<and>
      snd h =
        (case parse_enterprise_customer_uuids mkUUID s of
           Inl x \<Rightarrow> Inl ValueError
         | Inr parsed \<Rightarrow>
             if parsed = [] then Inl ValueError
             else if window_representable Reminder (now e) days then Inr ()
             else Inl Exception)) \<and>
   (let h = handle_plan_expiration mkUUID e w s days True in
      licenses (fst h) = licenses w \<and> sent (fst h) = sent w \<and>
      send_failures (fst h) = send_failures w \<and> api_calls (fst h) = api_calls w \<and>
      braze_calls (fst h) = braze_calls w \<and>
      (window_representable PlanExpiration (now e) days \<longrightarrow> snd h \<noteq> Inl Exception) \<and>
      (parse_enterprise_customer_uuids mkUUID s = Inr items \<and> items \<noteq> [] \<and>
       \<not> window_representable PlanExpiration (now e) days \<longrightarrow> snd h = Inl Exception) \<and>
      snd h =
        (case parse_enterprise_customer_uuids mkUUID s of
           Inl x \<Rightarrow> Inl ValueError
         | Inr parsed \<Rightarrow>
             if parsed = [] then Inl ValueError
             else if window_representable PlanExpiration (now e) days then Inr ()
             else Inl Exception)) \<and>
   (parse_enterprise_customer_uuids mkUUID s = Inr items \<longrightarrow>
      customer_results c mkUUID e w items days True =
        replicate (length items)
          (if window_representable c (now e) days then Inr (0, 0) else Inl OverflowError) \<and>
      sum_list (map failures_of (customer_results c mkUUID e w items days True)) =
        (if window_representable c (now e) days then 0 else length items))"
proof -
  have cr: "parse_enterprise_customer_uuids mkUUID s = Inr items \<Longrightarrow>
      customer_results c mkUUID e w items days True =
        replicate (length items)
          (if window_representable c (now e) days then Inr (0, 0) else Inl OverflowError)"
    using parse_valid_items [of mkUUID s items] by (intro customer_results_dry_run) simp
  have sm: "sum_list (map failures_of (replicate n
              (if window_representable c (now e) days then Inr (0, 0) else Inl OverflowError))) =
            (if window_representable c (now e) days then 0 else n)" for n
    by (induction n) (simp_all add: failures_of_def)
  have main: "process_enterprise_customer c e w eu days True =
     (w\<lparr>processing := processing w @ [eu]\<rparr>,
      if window_representable c (now e) days then Inr (0, 0) else Inl OverflowError)"
    by (rule process_dry_run)
  have hr: "let h = handle_reminders mkUUID e w s days True in
      licenses (fst h) = licenses w \<and> sent (fst h) = sent w \<and>
      send_failures (fst h) = send_failures w \<and> api_calls (fst h) = api_calls w \<and>
      braze_calls (fst h) = braze_calls w \<and>
      (window_representable Reminder (now e) days \<longrightarrow> snd h \<noteq> Inl Exception) \<and>
      (parse_enterprise_customer_uuids mkUUID s = Inr items \<and> items \<noteq> [] \<and>
       \<not> window_representable Reminder (now e) days \<longrightarrow> snd h = Inl Exception) \<and>
      snd h =
        (case parse_enterprise_customer_uuids mkUUID s of
           Inl x \<Rightarrow> Inl ValueError
         | Inr parsed \<Rightarrow>
             if parsed = [] then Inl ValueError
             else if window_representable Reminder (now e) days then Inr ()
             else Inl Exception)"
    by (simp add: handle_reminders_dry_run parse_tokens Let_def)
  have hp: "let h = handle_plan_expiration mkUUID e w s days True in
      licenses (fst h) = licenses w \<and> sent (fst h) = sent w \<and>
      send_failures (fst h) = send_failures w \<and> api_calls (fst h) = api_calls w \<and>
      braze_calls (fst h) = braze_calls w \<and>
      (window_representable PlanExpiration (now e) days \<longrightarrow> snd h \<noteq> Inl Exception) \<and>
      (parse_enterprise_customer_uuids mkUUID s = Inr items \<and> items \<noteq> [] \<and>
       \<not> window_representable PlanExpiration (now e) days \<longrightarrow> snd h = Inl Exception) \<and>
      snd h =
        (case parse_enterprise_customer_uuids mkUUID s of
           Inl x \<Rightarrow> Inl ValueError
         | Inr parsed \<Rightarrow>
             if parsed = [] then Inl ValueError
             else if window_representable PlanExpiration (now e) days then Inr ()
             else Inl Exception)"
    by (simp add: handle_plan_expiration_dry_run parse_tokens Let_def)
  show ?thesis
    using main hr hp cr sm [of "length items"] by (simp only:) simp
qed

text \<open>
  Dry runs of both commands for one customer, with 30 and with 7 days; a dry run of the
  reminder command with 3000000 days; and the same with a string that is no UUID.
\<close>

theorem dry_run_changes_nothing_witness:
  "(let h = handle_reminders example_mkUUID example_env example_world [97, 98] 30 True in
      licenses (fst h) = licenses example_world \<and> sent (fst h) = sent example_world \<and>
      send_failures (fst h) = send_failures example_world \<and>
      api_calls (fst h) = api_calls example_world \<and>
      braze_calls (fst h) = braze_calls example_world \<and>
      snd h = Inr ()) \<and>
   (let h = handle_plan_expiration example_mkUUID example_env example_world [97, 98] 7 True in
      licenses (fst h) = licenses example_world \<and> sent (fst h) = sent example_world \<and>
      send_failures (fst h) = send_failures example_world \<and>
      api_calls (fst h) = api_calls example_world \<and>
      braze_calls (fst h) = braze_calls example_world \<and>
      snd h = Inr ()) \<and>
   snd (handle_reminders example_mkUUID example_env example_world [97, 98] 3000000 True) =
     Inl Exception \<and>
   customer_results Reminder example_mkUUID example_env example_world [[97, 98]] 3000000 True =
     [Inl OverflowError] \<and>
   snd (handle_reminders example_mkUUID example_env example_world [97] 3000000 True) =
     Inl ValueError"
proof -
  have r: "window_representable Reminder (now example_env) 30"
    by (simp add: window_representable_def example_env_def date_of_def DAY_US_def)
  have p: "window_representable PlanExpiration (now example_env) 7"
    by (simp add: window_representable_def example_env_def date_of_def DAY_US_def)
  have n: "\<not> window_representable Reminder (now example_env) 3000000"
    by (simp add: window_representable_def example_env_def date_of_def DAY_US_def)
  have ps: "parse_enterprise_customer_uuids example_mkUUID [97, 98] = Inr [[97, 98]]"
    by (simp add: parse_tokens tokens.simps is_separator_def isspace_def example_mkUUID_def)
  have pe: "parse_enterprise_customer_uuids example_mkUUID [97] = Inl ValueError"
    by (simp add: parse_tokens tokens.simps is_separator_def isspace_def example_mkUUID_def)
  show ?thesis
    using dry_run_changes_nothing
        [of Reminder example_env example_world 7 30 example_mkUUID "[97, 98]" "[[97, 98]]"]
      dry_run_changes_nothing
        [of PlanExpiration example_env example_world 7 7 example_mkUUID "[97, 98]" "[[97, 98]]"]
      dry_run_changes_nothing
        [of Reminder example_env example_world 7 3000000 example_mkUUID "[97, 98]" "[[97, 98]]"]
      dry_run_changes_nothing
        [of Reminder example_env example_world 7 3000000 example_mkUUID "[97]" "[]"]
      r p n ps pe
    by (simp add: Let_def)
qed

text \<open>
  C9 as stated fails: a dry run of the reminder command with 3000000 days raises the
  end-of-run failure exception, because the selection raises OverflowError for the customer
  and \<^verbatim>\<open>handle\<close> counts that as a failure.
\<close>

theorem dry_run_overflow:
  "handle_reminders example_mkUUID example_env example_world [97, 98] 3000000 True =
     (example_world\<lparr>processing := [7]\<rparr>, Inl Exception)"
  by (simp add: handle_reminders_dry_run parse_tokens tokens.simps is_separator_def isspace_def
      example_mkUUID_def example_env_def example_world_def window_representable_def
      date_of_def DAY_US_def List.map_filter_simps)

section \<open>Failures of single customers\<close>














section \<open>The send loop\<close>











section \<open>At most one email for each license\<close>



















end
